theory Spec2Isabelle
  imports Complex_Main
begin

section \<open>Numbers and the health classification\<close>

text \<open>
  A Python number as \<open>compute_health\<close> can receive it: an int or a finite float is
  its exact value, and the three special floats are kept apart, because every ordered
  comparison with \<open>nan\<close> is false.
\<close>

datatype pynum = Num real | PosInf | NegInf | NaN

text \<open>\<open>x >= c\<close> for a number \<open>x\<close> and a finite constant \<open>c\<close>.\<close>

fun num_ge :: "pynum \<Rightarrow> real \<Rightarrow> bool" where
  "num_ge (Num x) c = (c \<le> x)"
| "num_ge PosInf c = True"
| "num_ge NegInf c = False"
| "num_ge NaN c = False"

text \<open>\<open>x < c\<close> for a number \<open>x\<close> and a finite constant \<open>c\<close>.\<close>

fun num_lt :: "pynum \<Rightarrow> real \<Rightarrow> bool" where
  "num_lt (Num x) c = (x < c)"
| "num_lt PosInf c = False"
| "num_lt NegInf c = True"
| "num_lt NaN c = False"

text \<open>\<open>x <= y\<close> between two numbers.\<close>

fun num_le :: "pynum \<Rightarrow> pynum \<Rightarrow> bool" where
  "num_le NaN y = False"
| "num_le x NaN = False"
| "num_le NegInf y = True"
| "num_le x PosInf = True"
| "num_le PosInf y = False"
| "num_le x NegInf = False"
| "num_le (Num x) (Num y) = (x \<le> y)"

text \<open>
  \<^verbatim>\<open>
  def compute_health(download_mbps):
      if download_mbps is None: return "Unknown", "text-gray-400"
      if download_mbps >= 100: return "Excellent", "text-green-400"
      if download_mbps >= 50: return "Good", "text-yellow-400"
      if download_mbps >= 10: return "Fair", "text-orange-400"
      return "Weak", "text-red-500"
  \<close>
\<close>

definition compute_health :: "pynum option \<Rightarrow> string \<times> string" where
  "compute_health download_mbps =
     (case download_mbps of
        None \<Rightarrow> (''Unknown'', ''text-gray-400'')
      | Some d \<Rightarrow>
          if num_ge d 100 then (''Excellent'', ''text-green-400'')
          else if num_ge d 50 then (''Good'', ''text-yellow-400'')
          else if num_ge d 10 then (''Fair'', ''text-orange-400'')
          else (''Weak'', ''text-red-500''))"

text \<open>
  The tier order of the specification, \<open>Weak < Fair < Good < Excellent\<close>, as a rank.
  The code has no such order; it is written here from the specification's words, to
  state monotonicity against.
\<close>

definition tier_rank :: "string \<Rightarrow> nat" where
  "tier_rank l =
     (if l = ''Weak'' then 0 else if l = ''Fair'' then 1
      else if l = ''Good'' then 2 else if l = ''Excellent'' then 3 else 0)"

section \<open>Exceptions and the outside world\<close>

text \<open>
  A raised exception is a value: a function that can raise returns \<open>exn + 'a\<close>, with
  \<open>Inl\<close> the exception. The type stands for the instances of Python's \<open>Exception\<close>,
  which is what \<open>except Exception\<close> catches.
\<close>

datatype exn = FileNotFoundError | TimeoutExpired | CalledProcessError int
  | KeyError string | ValueError | OtherException string

text \<open>The \<open>CompletedProcess\<close> of \<open>subprocess.run(..., capture_output=True, text=True)\<close>.\<close>

record completed_process =
  returncode :: int
  stdout :: string
  stderr :: string

text \<open>
  What the program asks of its surroundings during one call: the platform name, the two
  ways it starts a subprocess (each answers for the command and timeout it is given, by
  raising or by returning), the clock already formatted by
  \<open>strftime("%Y-%m-%d %H:%M:%S")\<close>, and the five steps of the speedtest library, each of
  which raises or returns.

  Three more things are taken as given rather than computed. \<open>print_failed e\<close> is
  \<open>print("Speedtest failed:", e)\<close>: writing to the standard output returns or raises
  (a closed pipe, an encoding that cannot write the message). \<open>py_truediv x c\<close> is
  \<open>x / c\<close> and \<open>py_round x n\<close> is \<open>round(x, n)\<close> on what the library returned: both
  are binary64 arithmetic, which is not computed here, and both raise on some values (an
  int too large for a double, an object that is not a number).
\<close>

record world =
  platform_system :: string
  subprocess_run :: "string list \<Rightarrow> int \<Rightarrow> exn + completed_process"
  check_output :: "string list \<Rightarrow> exn + string"
  now_strftime :: string
  st_Speedtest :: "exn + unit"
  st_get_best_server :: "exn + unit"
  st_download :: "exn + pynum"
  st_upload :: "exn + pynum"
  st_results_ping :: "exn + pynum"
  print_failed :: "exn \<Rightarrow> exn + unit"
  py_truediv :: "pynum \<Rightarrow> int \<Rightarrow> exn + pynum"
  py_round :: "pynum \<Rightarrow> int \<Rightarrow> exn + pynum"

section \<open>Strings\<close>

text \<open>
  A \<open>char\<close> is read as the code point of the same number, so the model covers text over
  the code points below 256. On these, \<open>str.isspace\<close> and the pattern class \<open>\s\<close> hold
  for 9 to 13, 28 to 32, 133 and 160, the class \<open>\d\<close> for the ten ASCII digits, and
  \<open>str.lower\<close> moves A to Z and the capital letters 192 to 222 (but 215) up by 32.
\<close>

definition code_point :: "char \<Rightarrow> nat" where
  "code_point c = of_char c"

definition is_space :: "char \<Rightarrow> bool" where
  "is_space c =
     (let n = code_point c
      in (9 \<le> n \<and> n \<le> 13) \<or> (28 \<le> n \<and> n \<le> 32) \<or> n = 133 \<or> n = 160)"

definition is_digit :: "char \<Rightarrow> bool" where
  "is_digit c = (let n = code_point c in 48 \<le> n \<and> n \<le> 57)"

definition lower_char :: "char \<Rightarrow> char" where
  "lower_char c =
     (let n = code_point c
      in if (65 \<le> n \<and> n \<le> 90) \<or> (192 \<le> n \<and> n \<le> 222 \<and> n \<noteq> 215)
         then char_of (n + 32) else c)"

definition lower :: "string \<Rightarrow> string" where
  "lower s = map lower_char s"

fun strip_left :: "string \<Rightarrow> string" where
  "strip_left [] = []"
| "strip_left (c # cs) = (if is_space c then strip_left cs else c # cs)"

definition strip :: "string \<Rightarrow> string" where
  "strip s = rev (strip_left (rev (strip_left s)))"

text \<open>\<open>str(n)\<close> of an int: its decimal digits, after a minus sign when negative.\<close>

fun str_nat :: "nat \<Rightarrow> string" where
  "str_nat n =
     (if n < 10 then [char_of (48 + n)]
      else str_nat (n div 10) @ [char_of (48 + n mod 10)])"

definition str_int :: "int \<Rightarrow> string" where
  "str_int i = (if i < 0 then CHR ''-'' # str_nat (nat (- i)) else str_nat (nat i))"

section \<open>Regular expressions\<close>

text \<open>
  Python's \<open>re\<close> is a backtracking matcher: a greedy repetition takes as much as it can
  and gives characters back one at a time while the rest of the pattern fails, and
  \<open>search\<close> returns the first match of the leftmost start position that has one. Each
  piece of a pattern is a function of the rest of the pattern (a continuation) and the
  text still to read; \<open>None\<close> is failure, which makes the caller try its next choice.
\<close>

text \<open>One character of a class.\<close>

definition re_char :: "(char \<Rightarrow> bool) \<Rightarrow> (string \<Rightarrow> 'a option) \<Rightarrow> string \<Rightarrow> 'a option" where
  "re_char p k s = (case s of [] \<Rightarrow> None | c # cs \<Rightarrow> if p c then k cs else None)"

text \<open>A literal text.\<close>

fun re_lit :: "string \<Rightarrow> (string \<Rightarrow> 'a option) \<Rightarrow> string \<Rightarrow> 'a option" where
  "re_lit [] k s = k s"
| "re_lit (p # ps) k [] = None"
| "re_lit (p # ps) k (c # cs) = (if c = p then re_lit ps k cs else None)"

text \<open>A literal text under \<open>re.IGNORECASE\<close>.\<close>

fun re_lit_ci :: "string \<Rightarrow> (string \<Rightarrow> 'a option) \<Rightarrow> string \<Rightarrow> 'a option" where
  "re_lit_ci [] k s = k s"
| "re_lit_ci (p # ps) k [] = None"
| "re_lit_ci (p # ps) k (c # cs) =
     (if lower_char c = lower_char p then re_lit_ci ps k cs else None)"

text \<open>\<open>p*\<close> for a character class \<open>p\<close>, greedy.\<close>

fun re_star :: "(char \<Rightarrow> bool) \<Rightarrow> (string \<Rightarrow> 'a option) \<Rightarrow> string \<Rightarrow> 'a option" where
  "re_star p k [] = k []"
| "re_star p k (c # cs) =
     (if p c then (case re_star p k cs of Some r \<Rightarrow> Some r | None \<Rightarrow> k (c # cs))
      else k (c # cs))"

text \<open>
  The rest of a capturing group \<open>(p+)\<close> after the characters \<open>g\<close> it has taken; the
  continuation receives the captured text.
\<close>

fun re_star_cap ::
  "(char \<Rightarrow> bool) \<Rightarrow> string \<Rightarrow> (string \<Rightarrow> string \<Rightarrow> 'a option) \<Rightarrow> string \<Rightarrow> 'a option" where
  "re_star_cap p g k [] = k g []"
| "re_star_cap p g k (c # cs) =
     (if p c
      then (case re_star_cap p (g @ [c]) k cs of Some r \<Rightarrow> Some r | None \<Rightarrow> k g (c # cs))
      else k g (c # cs))"

text \<open>The capturing group \<open>(p+)\<close>, greedy.\<close>

definition re_plus_cap ::
  "(char \<Rightarrow> bool) \<Rightarrow> (string \<Rightarrow> string \<Rightarrow> 'a option) \<Rightarrow> string \<Rightarrow> 'a option" where
  "re_plus_cap p k s =
     (case s of [] \<Rightarrow> None | c # cs \<Rightarrow> if p c then re_star_cap p [c] k cs else None)"

text \<open>\<open>$\<close> under \<open>re.MULTILINE\<close>: the end of the text, or just before a newline.\<close>

definition re_eol :: "(string \<Rightarrow> 'a option) \<Rightarrow> string \<Rightarrow> 'a option" where
  "re_eol k s = (case s of [] \<Rightarrow> k [] | c # cs \<Rightarrow> if c = CHR 0x0A then k s else None)"

text \<open>\<open>.\<close>: any character but a newline.\<close>

definition re_dot :: "char \<Rightarrow> bool" where
  "re_dot c = (c \<noteq> CHR 0x0A)"

text \<open>\<open>pattern.search(text)\<close>: the start positions from the left.\<close>

fun re_search :: "(string \<Rightarrow> 'a option) \<Rightarrow> string \<Rightarrow> 'a option" where
  "re_search m [] = m []"
| "re_search m (c # cs) = (case m (c # cs) of Some r \<Rightarrow> Some r | None \<Rightarrow> re_search m cs)"

text \<open>
  \<open>search\<close> for a pattern that begins with \<open>^\<close> under \<open>re.MULTILINE\<close>: only the start
  of the text and the positions just after a newline can start a match; \<open>b\<close> says whether
  the current position is one.
\<close>

fun re_search_bol :: "(string \<Rightarrow> 'a option) \<Rightarrow> bool \<Rightarrow> string \<Rightarrow> 'a option" where
  "re_search_bol m b [] = (if b then m [] else None)"
| "re_search_bol m b (c # cs) =
     (case (if b then m (c # cs) else None) of
        Some r \<Rightarrow> Some r
      | None \<Rightarrow> re_search_bol m (c = CHR 0x0A) cs)"

section \<open>The prober\<close>

text \<open>
  \<^verbatim>\<open>_ping_time_re = re.compile(r'time[=<]\s*([\d\.]+)\s*ms', re.IGNORECASE)\<close>
  \<^verbatim>\<open>_windows_avg_re = re.compile(r'Average = (\d+)ms', re.IGNORECASE)\<close>
  Each is the match at one start position; the result is group 1.
\<close>

definition ping_time_re :: "string \<Rightarrow> string option" where
  "ping_time_re =
     re_lit_ci ''time'' (re_char (\<lambda>c. c = CHR ''='' \<or> c = CHR ''<'')
       (re_star is_space (re_plus_cap (\<lambda>c. is_digit c \<or> c = CHR ''.'')
         (\<lambda>g. re_star is_space (re_lit_ci ''ms'' (\<lambda>_. Some g))))))"

definition windows_avg_re :: "string \<Rightarrow> string option" where
  "windows_avg_re =
     re_lit_ci ''Average = '' (re_plus_cap is_digit (\<lambda>g. re_lit_ci ''ms'' (\<lambda>_. Some g)))"

text \<open>The number a string of decimal digits denotes.\<close>

definition dec_nat :: "string \<Rightarrow> nat" where
  "dec_nat s = foldl (\<lambda>a c. 10 * a + (code_point c - 48)) 0 s"

text \<open>
  \<open>float(s)\<close> for the strings group 1 of the two patterns can hold, digits and dots:
  digits with at most one dot and at least one digit give the number, anything else
  raises \<open>ValueError\<close>. The result is the exact value of the decimal; Python keeps the
  double nearest to it.
\<close>

definition py_float :: "string \<Rightarrow> exn + real" where
  "py_float s =
     (let ip = takeWhile is_digit s; r = dropWhile is_digit s in
      case r of
        [] \<Rightarrow> if ip = [] then Inl ValueError else Inr (real (dec_nat ip))
      | c # fp \<Rightarrow>
          if c = CHR ''.'' \<and> list_all is_digit fp \<and> (ip \<noteq> [] \<or> fp \<noteq> [])
          then Inr (real (dec_nat ip) + real (dec_nat fp) / 10 ^ length fp)
          else Inl ValueError)"

text \<open>
  \<^verbatim>\<open>
  def ping_latency(host, timeout=2):
      sys = platform.system().lower()
      cmd = ["ping", "-n", "1", "-w", str(int(timeout * 1000)), host] if sys == "windows" else ["ping", "-c", "1", "-W", str(int(timeout)), host]
      try:
          p = subprocess.run(cmd, capture_output=True, text=True, timeout=timeout + 1)
          out = p.stdout + p.stderr
      except Exception:
          return False, None
      if p.returncode == 0:
          m = _ping_time_re.search(out) or _windows_avg_re.search(out)
          if m:
              try:
                  return True, float(m.group(1))
              except:
                  pass
          return True, None
      return False, None
  \<close>
  The timeout is an int, as the default 2 that the only caller uses.
\<close>

definition ping_cmd :: "world \<Rightarrow> string \<Rightarrow> int \<Rightarrow> string list" where
  "ping_cmd w host timeout =
     (let sys = lower (platform_system w)
      in if sys = ''windows''
         then [''ping'', ''-n'', ''1'', ''-w'', str_int (timeout * 1000), host]
         else [''ping'', ''-c'', ''1'', ''-W'', str_int timeout, host])"

definition ping_search :: "string \<Rightarrow> string option" where
  "ping_search out =
     (case re_search ping_time_re out of
        Some g \<Rightarrow> Some g
      | None \<Rightarrow> re_search windows_avg_re out)"

definition ping_latency :: "world \<Rightarrow> string \<Rightarrow> int \<Rightarrow> exn + (bool \<times> real option)" where
  "ping_latency w host timeout =
     (case subprocess_run w (ping_cmd w host timeout) (timeout + 1) of
        Inl e \<Rightarrow> Inr (False, None)
      | Inr p \<Rightarrow>
          let out = stdout p @ stderr p in
          if returncode p = 0 then
            (case ping_search out of
               Some g \<Rightarrow>
                 (case py_float g of
                    Inr v \<Rightarrow> Inr (True, Some v)
                  | Inl e \<Rightarrow> Inr (True, None))
             | None \<Rightarrow> Inr (True, None))
          else Inr (False, None))"

text \<open>
  A world to evaluate the functions in: Linux, every subprocess fails to start, every
  step of the speedtest library raises, the standard output takes what is printed, and
  the arithmetic on the library's results, which is never reached, raises. Examples
  change the fields they need.
\<close>

definition quiet_world :: world where
  "quiet_world =
     \<lparr>platform_system = ''Linux'',
      subprocess_run = (\<lambda>cmd t. Inl FileNotFoundError),
      check_output = (\<lambda>cmd. Inl FileNotFoundError),
      now_strftime = ''2024-01-01 00:00:00'',
      st_Speedtest = Inl (OtherException ''ConfigRetrievalError''),
      st_get_best_server = Inl (OtherException ''NoMatchedServers''),
      st_download = Inl (OtherException ''SpeedtestException''),
      st_upload = Inl (OtherException ''SpeedtestException''),
      st_results_ping = Inl (OtherException ''AttributeError''),
      print_failed = (\<lambda>e. Inr ()),
      py_truediv = (\<lambda>x c. Inl (OtherException ''TypeError'')),
      py_round = (\<lambda>x n. Inl (OtherException ''TypeError''))\<rparr>"

section \<open>The SSID lookup\<close>

text \<open>
  The two patterns of \<open>get_current_ssid\<close>, each as the match at one start position with
  group 1 as the result:
  \<^verbatim>\<open>re.search(r"^\s*SSID\s*:\s*(.+)$", out, re.MULTILINE)\<close> and
  \<^verbatim>\<open>re.search(r" SSID: (.+)", out)\<close>.
\<close>

definition ssid_windows_re :: "string \<Rightarrow> string option" where
  "ssid_windows_re =
     re_star is_space (re_lit ''SSID'' (re_star is_space (re_char (\<lambda>c. c = CHR '':'')
       (re_star is_space (re_plus_cap re_dot (\<lambda>g. re_eol (\<lambda>_. Some g)))))))"

definition ssid_darwin_re :: "string \<Rightarrow> string option" where
  "ssid_darwin_re = re_lit '' SSID: '' (re_plus_cap re_dot (\<lambda>g _. Some g))"

definition airport_path :: string where
  "airport_path =
     ''/System/Library/PrivateFrameworks/Apple80211.framework/Versions/Current/Resources/airport''"

text \<open>
  The body of the \<open>try\<close> block: \<open>Inl\<close> when \<open>check_output\<close> raises, \<open>Inr (Some s)\<close>
  when a \<open>return\<close> inside the block is reached, \<open>Inr None\<close> when the block ends without
  returning.
\<close>

definition ssid_try :: "world \<Rightarrow> string \<Rightarrow> exn + string option" where
  "ssid_try w sys =
     (if sys = ''windows'' then
        (case check_output w [''netsh'', ''wlan'', ''show'', ''interfaces''] of
           Inl e \<Rightarrow> Inl e
         | Inr out \<Rightarrow>
             (case re_search_bol ssid_windows_re True out of
                Some g \<Rightarrow> Inr (Some (strip g))
              | None \<Rightarrow> Inr None))
      else if sys = ''linux'' then
        (case check_output w [''iwgetid'', ''-r''] of
           Inl e \<Rightarrow> Inl e
         | Inr out \<Rightarrow> Inr (Some (strip out)))
      else if sys = ''darwin'' then
        (case check_output w [airport_path, ''-I''] of
           Inl e \<Rightarrow> Inl e
         | Inr out \<Rightarrow>
             (case re_search ssid_darwin_re out of
                Some g \<Rightarrow> Inr (Some (strip g))
              | None \<Rightarrow> Inr None))
      else Inr None)"

text \<open>
  \<^verbatim>\<open>
  def get_current_ssid():
      sys = platform.system().lower()
      try:
          if sys == "windows":
              out = subprocess.check_output(["netsh", "wlan", "show", "interfaces"], text=True)
              m = re.search(r"^\s*SSID\s*:\s*(.+)$", out, re.MULTILINE)
              if m: return m.group(1).strip()
          elif sys == "linux":
              out = subprocess.check_output(["iwgetid", "-r"], text=True)
              return out.strip()
          elif sys == "darwin":  # macOS
              out = subprocess.check_output([".../airport", "-I"], text=True)
              m = re.search(r" SSID: (.+)", out)
              if m: return m.group(1).strip()
      except Exception:
          pass
      return "Unknown"
  \<close>
\<close>

definition get_current_ssid :: "world \<Rightarrow> exn + string" where
  "get_current_ssid w =
     (let sys = lower (platform_system w) in
      case ssid_try w sys of
        Inl e \<Rightarrow> Inr ''Unknown''
      | Inr (Some s) \<Rightarrow> Inr s
      | Inr None \<Rightarrow> Inr ''Unknown'')"

section \<open>The speedtest\<close>

text \<open>
  The body of the \<open>try\<close> block of \<open>run_speedtest\<close>: the calls into the library and
  the arithmetic on what they return, in the order of the source; the first that raises
  ends the block.
\<close>

definition speedtest_try :: "world \<Rightarrow> exn + (pynum \<times> pynum \<times> pynum)" where
  "speedtest_try w =
     (case st_Speedtest w of Inl e \<Rightarrow> Inl e | Inr st \<Rightarrow>
      case st_get_best_server w of Inl e \<Rightarrow> Inl e | Inr srv \<Rightarrow>
      case st_download w of Inl e \<Rightarrow> Inl e | Inr d \<Rightarrow>
      case py_truediv w d 1000000 of Inl e \<Rightarrow> Inl e | Inr dl \<Rightarrow>
      case st_upload w of Inl e \<Rightarrow> Inl e | Inr u \<Rightarrow>
      case py_truediv w u 1000000 of Inl e \<Rightarrow> Inl e | Inr ul \<Rightarrow>
      case st_results_ping w of Inl e \<Rightarrow> Inl e | Inr ping \<Rightarrow>
      case py_round w dl 2 of Inl e \<Rightarrow> Inl e | Inr rdl \<Rightarrow>
      case py_round w ul 2 of Inl e \<Rightarrow> Inl e | Inr rul \<Rightarrow>
      case py_round w ping 1 of Inl e \<Rightarrow> Inl e | Inr rping \<Rightarrow>
        Inr (rdl, rul, rping))"

text \<open>
  \<^verbatim>\<open>
  def run_speedtest():
      try:
          st = speedtest.Speedtest()
          st.get_best_server()
          dl = st.download() / 1_000_000
          ul = st.upload() / 1_000_000
          ping = st.results.ping
          return round(dl, 2), round(ul, 2), round(ping, 1)
      except Exception as e:
          print("Speedtest failed:", e)
          return None, None, None
  \<close>
  The \<open>print\<close> stands in the handler outside any \<open>try\<close>: when it raises, the
  exception leaves \<open>run_speedtest\<close>.
\<close>

definition run_speedtest :: "world \<Rightarrow> exn + (pynum option \<times> pynum option \<times> pynum option)" where
  "run_speedtest w =
     (case speedtest_try w of
        Inl e \<Rightarrow>
          (case print_failed w e of
             Inl e' \<Rightarrow> Inl e'
           | Inr u \<Rightarrow> Inr (None, None, None))
      | Inr (dl, ul, ping) \<Rightarrow> Inr (Some dl, Some ul, Some ping))"

text \<open>The dictionary that \<open>api_speedtest\<close> hands to \<open>jsonify\<close>; \<open>None\<close> is JSON \<open>null\<close>.\<close>

record speedtest_payload =
  ssid :: string
  download_mbps :: "pynum option"
  upload_mbps :: "pynum option"
  ping_ms :: "pynum option"
  health :: string
  health_color :: string
  time_stamp :: string

text \<open>
  \<^verbatim>\<open>
  def api_speedtest():
      ssid = get_current_ssid()
      dl, ul, ping = run_speedtest()
      health, color = compute_health(dl)
      return jsonify({"ssid": ssid, "download_mbps": dl, "upload_mbps": ul, "ping_ms": ping,
                      "health": health, "health_color": color,
                      "time": datetime.now().strftime("%Y-%m-%d %H:%M:%S")})
  \<close>
  The result is the payload; \<open>time_stamp\<close> is the key \<open>"time"\<close>.
\<close>

definition api_speedtest :: "world \<Rightarrow> exn + speedtest_payload" where
  "api_speedtest w =
     (case get_current_ssid w of Inl e \<Rightarrow> Inl e | Inr s \<Rightarrow>
      case run_speedtest w of Inl e \<Rightarrow> Inl e | Inr (dl, ul, ping) \<Rightarrow>
        (case compute_health dl of (h, color) \<Rightarrow>
           Inr \<lparr>ssid = s, download_mbps = dl, upload_mbps = ul, ping_ms = ping,
                health = h, health_color = color, time_stamp = now_strftime w\<rparr>))"

section \<open>Properties of the health classification\<close>

lemma compute_health_Some:
  "fst (compute_health (Some d)) =
     (if num_ge d 100 then ''Excellent'' else if num_ge d 50 then ''Good''
      else if num_ge d 10 then ''Fair'' else ''Weak'')"
  by (simp add: compute_health_def)

lemma num_ge_mono: "num_le x y \<Longrightarrow> num_ge x c \<Longrightarrow> num_ge y c"
  by (cases x; cases y) auto

text \<open>
  Claim C2. \<open>compute_health\<close> depends on the download figure alone, with inclusive
  lower bounds: a figure of at least 100 is Excellent, one in [50, 100) is Good, one in
  [10, 50) is Fair, one below 10 (zero and negatives too) is Weak, and no figure
  (\<open>None\<close>) is Unknown. A figure exactly on a boundary belongs to the higher tier.
\<close>

theorem compute_health_tiers:
  "(num_ge d 100 \<longrightarrow> fst (compute_health (Some d)) = ''Excellent'')
   \<and> (num_ge d 50 \<and> num_lt d 100 \<longrightarrow> fst (compute_health (Some d)) = ''Good'')
   \<and> (num_ge d 10 \<and> num_lt d 50 \<longrightarrow> fst (compute_health (Some d)) = ''Fair'')
   \<and> (num_lt d 10 \<longrightarrow> fst (compute_health (Some d)) = ''Weak'')
   \<and> fst (compute_health None) = ''Unknown''
   \<and> fst (compute_health (Some (Num 100))) = ''Excellent''
   \<and> fst (compute_health (Some (Num 50))) = ''Good''
   \<and> fst (compute_health (Some (Num 10))) = ''Fair''"
  by (cases d) (simp_all add: compute_health_def)

theorem compute_health_tiers_witness:
  "fst (compute_health (Some (Num 100))) = ''Excellent''
   \<and> fst (compute_health (Some (Num 99.99))) = ''Good''
   \<and> fst (compute_health (Some (Num 50))) = ''Good''
   \<and> fst (compute_health (Some (Num 49.99))) = ''Fair''
   \<and> fst (compute_health (Some (Num 10))) = ''Fair''
   \<and> fst (compute_health (Some (Num 9.99))) = ''Weak''
   \<and> fst (compute_health (Some (Num 0))) = ''Weak''
   \<and> fst (compute_health (Some (Num (- 3)))) = ''Weak''
   \<and> fst (compute_health None) = ''Unknown''"
  using compute_health_tiers [of "Num 100"] compute_health_tiers [of "Num 99.99"]
    compute_health_tiers [of "Num 49.99"] compute_health_tiers [of "Num 9.99"]
    compute_health_tiers [of "Num 0"] compute_health_tiers [of "Num (- 3)"]
  by simp

text \<open>
  Claim C8. \<open>compute_health\<close> is monotonic non-decreasing in the download figure:
  whenever \<open>x <= y\<close> holds for two figures, the label of \<open>x\<close> is at most the label of
  \<open>y\<close> in the order Weak < Fair < Good < Excellent.
\<close>

theorem compute_health_mono:
  assumes "num_le x y"
  shows "tier_rank (fst (compute_health (Some x))) \<le> tier_rank (fst (compute_health (Some y)))"
proof -
  have ge: "num_ge x c \<Longrightarrow> num_ge y c" for c
    using assms by (rule num_ge_mono)
  show ?thesis
    unfolding compute_health_Some using ge [of 100] ge [of 50] ge [of 10]
    by (simp add: tier_rank_def)
qed

theorem compute_health_mono_witness:
  "num_le (Num 49.99) (Num 50)
   \<and> tier_rank (fst (compute_health (Some (Num 49.99)))) = 1
   \<and> tier_rank (fst (compute_health (Some (Num 50)))) = 2
   \<and> tier_rank (fst (compute_health (Some (Num 49.99))))
       \<le> tier_rank (fst (compute_health (Some (Num 50))))"
proof -
  have h: "num_le (Num 49.99) (Num 50)" by simp
  show ?thesis
    using h compute_health_mono [OF h] by (simp add: compute_health_def tier_rank_def)
qed

section \<open>Properties of the pattern matcher\<close>

lemma re_lit_ci_prefix:
  "map lower_char t = map lower_char lit \<Longrightarrow> re_lit_ci lit k (t @ s) = k s"
proof (induction lit arbitrary: t)
  case Nil
  then show ?case by simp
next
  case (Cons p ps)
  then obtain c cs where t: "t = c # cs" by (cases t) auto
  with Cons show ?case by simp
qed

lemma re_star_skip:
  assumes "\<forall>c \<in> set sp. p c" and "s = [] \<or> \<not> p (hd s)" and "k s = Some r"
  shows "re_star p k (sp @ s) = Some r"
  using assms
proof (induction sp)
  case Nil
  then show ?case by (cases s) auto
next
  case (Cons c sp)
  then show ?case by simp
qed

lemma re_star_cap_take:
  assumes "\<forall>c \<in> set xs. p c" and "s = [] \<or> \<not> p (hd s)" and "k (g @ xs) s = Some r"
  shows "re_star_cap p g k (xs @ s) = Some r"
  using assms
proof (induction xs arbitrary: g)
  case Nil
  then show ?case by (cases s) auto
next
  case (Cons c xs)
  then show ?case by simp
qed

lemma re_plus_cap_take:
  assumes "xs \<noteq> []" and "\<forall>c \<in> set xs. p c" and "s = [] \<or> \<not> p (hd s)" and "k xs s = Some r"
  shows "re_plus_cap p k (xs @ s) = Some r"
proof -
  from assms(1) obtain c cs where xs: "xs = c # cs" by (cases xs) auto
  have "re_star_cap p [c] k (cs @ s) = Some r"
    using assms xs by (intro re_star_cap_take) auto
  then show ?thesis using assms xs by (simp add: re_plus_cap_def)
qed

lemma re_search_skip:
  assumes "\<forall>i < length pre. m (drop i (pre @ s)) = None"
  shows "re_search m (pre @ s) = re_search m s"
  using assms
proof (induction pre)
  case Nil
  then show ?case by simp
next
  case (Cons c pre)
  have here: "m ((c # pre) @ s) = None" using Cons.prems by (auto dest: spec [of _ 0])
  have "\<forall>i < length pre. m (drop i (pre @ s)) = None"
  proof (intro allI impI)
    fix i assume "i < length pre"
    then have "Suc i < length (c # pre)" by simp
    with Cons.prems have "m (drop (Suc i) ((c # pre) @ s)) = None" by blast
    then show "m (drop i (pre @ s)) = None" by simp
  qed
  with Cons.IH here show ?case by simp
qed

lemma re_search_here: "m s = Some r \<Longrightarrow> re_search m s = Some r"
  by (cases s) auto

lemma lower_char_space: "is_space a \<Longrightarrow> lower_char a = a"
  by (auto simp: is_space_def lower_char_def Let_def)

lemma lower_char_digit: "is_digit a \<Longrightarrow> lower_char a = a"
  by (auto simp: is_digit_def lower_char_def Let_def)

lemma lower_m_not_space: "lower_char a = CHR ''m'' \<Longrightarrow> \<not> is_space a"
proof
  assume l: "lower_char a = CHR ''m''" and s: "is_space a"
  from s l have "a = CHR ''m''" by (simp add: lower_char_space)
  with s show False by (simp add: is_space_def code_point_def)
qed

lemma lower_m_not_digit: "lower_char a = CHR ''m'' \<Longrightarrow> \<not> is_digit a"
proof
  assume l: "lower_char a = CHR ''m''" and s: "is_digit a"
  from s l have "a = CHR ''m''" by (simp add: lower_char_digit)
  with s show False by (simp add: is_digit_def code_point_def)
qed

lemma lower_m_not_dot: "lower_char a = CHR ''m'' \<Longrightarrow> a \<noteq> CHR ''.''"
  by (auto simp: lower_char_def code_point_def)

lemma space_not_num: "is_space a \<Longrightarrow> \<not> (is_digit a \<or> a = CHR ''.'')"
  by (auto simp: is_space_def is_digit_def Let_def code_point_def)

lemma lower_ms: "map lower_char ''ms'' = ''ms''"
  by code_simp

lemma lower_time: "map lower_char ''time'' = ''time''"
  by code_simp

lemma lower_average: "map lower_char ''Average = '' = ''average = ''"
  by code_simp

lemma ms_head:
  assumes "map lower_char m = ''ms''"
  shows "m \<noteq> [] \<and> lower_char (hd m) = CHR ''m''"
  using assms by (cases m) auto

lemma ping_time_re_shape:
  assumes t: "map lower_char t = ''time''"
    and c: "c = CHR ''='' \<or> c = CHR ''<''"
    and sp1: "list_all is_space sp1"
    and num: "num \<noteq> []" "list_all (\<lambda>c. is_digit c \<or> c = CHR ''.'') num"
    and sp2: "list_all is_space sp2"
    and m: "map lower_char m = ''ms''"
  shows "ping_time_re (t @ c # sp1 @ num @ sp2 @ m @ post) = Some num"
proof -
  let ?numch = "\<lambda>c. is_digit c \<or> c = CHR ''.''"
  let ?k3 = "re_lit_ci ''ms'' (\<lambda>_. Some num)"
  let ?k2 = "\<lambda>g. re_star is_space (re_lit_ci ''ms'' (\<lambda>_. Some g))"
  let ?k1 = "re_plus_cap ?numch ?k2"
  from m have mh: "m \<noteq> []" "lower_char (hd m) = CHR ''m''"
    using ms_head by auto
  have a3: "?k3 (m @ post) = Some num"
    using re_lit_ci_prefix [of m "''ms''" "\<lambda>_. Some num" post] m lower_ms by simp
  have a2: "?k2 num (sp2 @ m @ post) = Some num"
  proof (rule re_star_skip)
    show "\<forall>c\<in>set sp2. is_space c" using sp2 by (simp add: list_all_iff)
    show "m @ post = [] \<or> \<not> is_space (hd (m @ post))"
      using mh lower_m_not_space by simp
    show "?k3 (m @ post) = Some num" by (rule a3)
  qed
  have a1: "?k1 (num @ sp2 @ m @ post) = Some num"
  proof (rule re_plus_cap_take)
    show "num \<noteq> []" by fact
    show "\<forall>c\<in>set num. ?numch c" using num by (simp add: list_all_iff)
    show "sp2 @ m @ post = [] \<or> \<not> ?numch (hd (sp2 @ m @ post))"
    proof (cases sp2)
      case Nil
      then show ?thesis using mh lower_m_not_digit lower_m_not_dot by simp
    next
      case (Cons a as)
      then show ?thesis using sp2 space_not_num [of a] by simp
    qed
    show "?k2 num (sp2 @ m @ post) = Some num" by (rule a2)
  qed
  have a0: "re_star is_space ?k1 (sp1 @ num @ sp2 @ m @ post) = Some num"
  proof (rule re_star_skip)
    show "\<forall>c\<in>set sp1. is_space c" using sp1 by (simp add: list_all_iff)
    show "num @ sp2 @ m @ post = [] \<or> \<not> is_space (hd (num @ sp2 @ m @ post))"
    proof -
      from num obtain d ds where nd: "num = d # ds" by (cases num) auto
      with num have "?numch d" by simp
      then have "\<not> is_space d" using space_not_num by blast
      with nd show ?thesis by simp
    qed
    show "?k1 (num @ sp2 @ m @ post) = Some num" by (rule a1)
  qed
  have "ping_time_re (t @ c # sp1 @ num @ sp2 @ m @ post)
      = re_char (\<lambda>c. c = CHR ''='' \<or> c = CHR ''<'') (re_star is_space ?k1)
          (c # sp1 @ num @ sp2 @ m @ post)"
    unfolding ping_time_re_def using t lower_time by (simp add: re_lit_ci_prefix)
  also have "\<dots> = re_star is_space ?k1 (sp1 @ num @ sp2 @ m @ post)"
    using c by (auto simp: re_char_def)
  finally show ?thesis using a0 by simp
qed

lemma windows_avg_re_shape:
  assumes a: "map lower_char a = ''average = ''"
    and ds: "ds \<noteq> []" "list_all is_digit ds"
    and m: "map lower_char m = ''ms''"
  shows "windows_avg_re (a @ ds @ m @ post) = Some ds"
proof -
  let ?k2 = "\<lambda>g. re_lit_ci ''ms'' (\<lambda>_. Some g)"
  from m have mh: "m \<noteq> []" "lower_char (hd m) = CHR ''m''"
    using ms_head by auto
  have a2: "?k2 ds (m @ post) = Some ds"
    using re_lit_ci_prefix [of m "''ms''" "\<lambda>_. Some ds" post] m lower_ms by simp
  have a1: "re_plus_cap is_digit ?k2 (ds @ m @ post) = Some ds"
  proof (rule re_plus_cap_take)
    show "ds \<noteq> []" by fact
    show "\<forall>c\<in>set ds. is_digit c" using ds by (simp add: list_all_iff)
    show "m @ post = [] \<or> \<not> is_digit (hd (m @ post))"
      using mh lower_m_not_digit by simp
    show "?k2 ds (m @ post) = Some ds" by (rule a2)
  qed
  show ?thesis
    unfolding windows_avg_re_def using a lower_average a1 by (simp add: re_lit_ci_prefix)
qed

lemma py_float_digits:
  assumes "ds \<noteq> []" and "list_all is_digit ds"
  shows "py_float ds = Inr (real (dec_nat ds))"
proof -
  have tw: "takeWhile is_digit ds = ds" and dw: "dropWhile is_digit ds = []"
    using assms by (simp_all add: list_all_iff)
  show ?thesis
    unfolding py_float_def Let_def tw dw using assms(1) by simp
qed


lemma all_less_list_all: "(\<forall>i<n. P i) \<longleftrightarrow> list_all P [0..<n]"
  by (auto simp: list_all_iff)

section \<open>Properties of the prober\<close>

text \<open>
  Claim C4. For every host and timeout, when starting or waiting for the ping subprocess
  raises (binary missing, timeout, anything else), and when ping exits with a non-zero
  code, \<open>ping_latency\<close> returns exactly \<open>(False, None)\<close>; and it always returns a
  pair, it never raises.
\<close>

theorem ping_latency_failure:
  "(\<forall>e. subprocess_run w (ping_cmd w host timeout) (timeout + 1) = Inl e
        \<longrightarrow> ping_latency w host timeout = Inr (False, None))
   \<and> (\<forall>p. subprocess_run w (ping_cmd w host timeout) (timeout + 1) = Inr p \<and> returncode p \<noteq> 0
        \<longrightarrow> ping_latency w host timeout = Inr (False, None))
   \<and> (\<exists>r. ping_latency w host timeout = Inr r)"
proof (intro conjI allI impI)
  fix e assume "subprocess_run w (ping_cmd w host timeout) (timeout + 1) = Inl e"
  then show "ping_latency w host timeout = Inr (False, None)"
    by (simp add: ping_latency_def)
next
  fix p assume "subprocess_run w (ping_cmd w host timeout) (timeout + 1) = Inr p \<and> returncode p \<noteq> 0"
  then show "ping_latency w host timeout = Inr (False, None)"
    by (simp add: ping_latency_def)
next
  show "\<exists>r. ping_latency w host timeout = Inr r"
    by (auto simp: ping_latency_def Let_def split: sum.splits option.splits)
qed

theorem ping_latency_failure_witness:
  "ping_cmd quiet_world ''192.168.1.1'' 2 = [''ping'', ''-c'', ''1'', ''-W'', ''2'', ''192.168.1.1'']
   \<and> ping_latency quiet_world ''192.168.1.1'' 2 = Inr (False, None)
   \<and> ping_latency (quiet_world\<lparr>subprocess_run := (\<lambda>cmd t. Inl TimeoutExpired)\<rparr>) ''192.168.1.1'' 2
       = Inr (False, None)
   \<and> ping_latency (quiet_world\<lparr>platform_system := ''Windows'', subprocess_run := (\<lambda>cmd t.
         if cmd = [''ping'', ''-n'', ''1'', ''-w'', ''2000'', ''10.0.0.9''] \<and> t = 3
         then Inr \<lparr>returncode = 1, stdout = ''Request timed out. time=5ms'', stderr = ''''\<rparr>
         else Inl FileNotFoundError)\<rparr>) ''10.0.0.9'' 2 = Inr (False, None)"
proof -
  let ?w1 = "quiet_world\<lparr>subprocess_run := (\<lambda>cmd t. Inl TimeoutExpired)\<rparr>"
  let ?w2 = "quiet_world\<lparr>platform_system := ''Windows'', subprocess_run := (\<lambda>cmd t.
         if cmd = [''ping'', ''-n'', ''1'', ''-w'', ''2000'', ''10.0.0.9''] \<and> t = 3
         then Inr \<lparr>returncode = 1, stdout = ''Request timed out. time=5ms'', stderr = ''''\<rparr>
         else Inl FileNotFoundError)\<rparr>"
  have c0: "ping_cmd quiet_world ''192.168.1.1'' 2 = [''ping'', ''-c'', ''1'', ''-W'', ''2'', ''192.168.1.1'']"
    by code_simp
  have c2: "ping_cmd ?w2 ''10.0.0.9'' 2 = [''ping'', ''-n'', ''1'', ''-w'', ''2000'', ''10.0.0.9'']"
    by code_simp
  have r0: "subprocess_run quiet_world (ping_cmd quiet_world ''192.168.1.1'' 2) (2 + 1) = Inl FileNotFoundError"
    by (simp add: quiet_world_def)
  have r1: "subprocess_run ?w1 (ping_cmd ?w1 ''192.168.1.1'' 2) (2 + 1) = Inl TimeoutExpired"
    by simp
  have r2: "subprocess_run ?w2 (ping_cmd ?w2 ''10.0.0.9'' 2) (2 + 1)
      = Inr \<lparr>returncode = 1, stdout = ''Request timed out. time=5ms'', stderr = ''''\<rparr>"
    unfolding c2 by simp
  show ?thesis
    using c0 r0 r1 r2
      ping_latency_failure [of quiet_world "''192.168.1.1''" 2]
      ping_latency_failure [of ?w1 "''192.168.1.1''" 2]
      ping_latency_failure [of ?w2 "''10.0.0.9''" 2]
    by simp
qed

lemma ping_latency_exit0:
  assumes "subprocess_run w (ping_cmd w host timeout) (timeout + 1) = Inr p" and "returncode p = 0"
  shows "ping_latency w host timeout =
     (case ping_search (stdout p @ stderr p) of
        Some g \<Rightarrow> (case py_float g of Inr v \<Rightarrow> Inr (True, Some v) | Inl e \<Rightarrow> Inr (True, None))
      | None \<Rightarrow> Inr (True, None))"
  using assms by (simp add: ping_latency_def Let_def)

lemma ping_search_time:
  assumes out: "out = pre @ t @ c # sp1 @ num @ sp2 @ m @ post"
    and pre: "\<forall>i<length pre. ping_time_re (drop i out) = None"
    and t: "map lower_char t = ''time''"
    and c: "c = CHR ''='' \<or> c = CHR ''<''"
    and sp1: "list_all is_space sp1"
    and num: "num \<noteq> []" "list_all (\<lambda>c. is_digit c \<or> c = CHR ''.'') num"
    and sp2: "list_all is_space sp2"
    and m: "map lower_char m = ''ms''"
  shows "ping_search out = Some num"
proof -
  let ?s = "t @ c # sp1 @ num @ sp2 @ m @ post"
  have here: "ping_time_re ?s = Some num"
    using t c sp1 num sp2 m by (rule ping_time_re_shape)
  have "re_search ping_time_re (pre @ ?s) = re_search ping_time_re ?s"
    using pre unfolding out by (rule re_search_skip)
  also have "\<dots> = Some num"
    using here by (rule re_search_here)
  finally show ?thesis by (simp add: ping_search_def out)
qed

lemma ping_search_avg:
  assumes out: "out = pre @ a @ ds @ m @ post"
    and no_time: "re_search ping_time_re out = None"
    and pre: "\<forall>i<length pre. windows_avg_re (drop i out) = None"
    and a: "map lower_char a = ''average = ''"
    and ds: "ds \<noteq> []" "list_all is_digit ds"
    and m: "map lower_char m = ''ms''"
  shows "ping_search out = Some ds"
proof -
  let ?s = "a @ ds @ m @ post"
  have here: "windows_avg_re ?s = Some ds"
    using a ds m by (rule windows_avg_re_shape)
  have "re_search windows_avg_re (pre @ ?s) = re_search windows_avg_re ?s"
    using pre unfolding out by (rule re_search_skip)
  also have "\<dots> = Some ds"
    using here by (rule re_search_here)
  finally show ?thesis using no_time by (simp add: ping_search_def out)
qed


text \<open>
  Claim C5. When ping exits with code 0, the latency is read off the output by the two
  patterns: where the leftmost match of the time pattern is a figure such as
  \<open>time=23.4 ms\<close> the result is \<open>(True, Some 23.4)\<close>; where the time pattern matches
  nowhere and the leftmost \<open>Average = <digits>ms\<close> gives digits, the result is
  \<open>(True, Some digits)\<close>; where neither pattern matches, or the matched figure is not a
  number, the result is \<open>(True, None)\<close>. In every case the first component is
  \<open>True\<close>: success without a figure is still success.
\<close>

theorem ping_latency_success:
  assumes run: "subprocess_run w (ping_cmd w host timeout) (timeout + 1) = Inr p"
    and exit0: "returncode p = 0"
    and out: "out = stdout p @ stderr p"
  shows "(\<forall>pre t c sp1 num sp2 m post v.
            out = pre @ t @ c # sp1 @ num @ sp2 @ m @ post
            \<and> (\<forall>i<length pre. ping_time_re (drop i out) = None)
            \<and> map lower_char t = ''time'' \<and> (c = CHR ''='' \<or> c = CHR ''<'')
            \<and> list_all is_space sp1
            \<and> num \<noteq> [] \<and> list_all (\<lambda>c. is_digit c \<or> c = CHR ''.'') num
            \<and> list_all is_space sp2 \<and> map lower_char m = ''ms''
            \<and> py_float num = Inr v
            \<longrightarrow> ping_latency w host timeout = Inr (True, Some v))
      \<and> (\<forall>pre a ds m post.
            out = pre @ a @ ds @ m @ post
            \<and> re_search ping_time_re out = None
            \<and> (\<forall>i<length pre. windows_avg_re (drop i out) = None)
            \<and> map lower_char a = ''average = ''
            \<and> ds \<noteq> [] \<and> list_all is_digit ds \<and> map lower_char m = ''ms''
            \<longrightarrow> ping_latency w host timeout = Inr (True, Some (real (dec_nat ds))))
      \<and> (ping_search out = None \<longrightarrow> ping_latency w host timeout = Inr (True, None))
      \<and> (\<forall>g e. ping_search out = Some g \<and> py_float g = Inl e
            \<longrightarrow> ping_latency w host timeout = Inr (True, None))
      \<and> (\<exists>lat. ping_latency w host timeout = Inr (True, lat))"
proof -
  note eq = ping_latency_exit0 [OF run exit0, folded out]
  have A: "ping_latency w host timeout = Inr (True, Some v)"
    if "out = pre @ t @ c # sp1 @ num @ sp2 @ m @ post"
      "\<forall>i<length pre. ping_time_re (drop i out) = None"
      "map lower_char t = ''time''" "c = CHR ''='' \<or> c = CHR ''<''"
      "list_all is_space sp1" "num \<noteq> []" "list_all (\<lambda>c. is_digit c \<or> c = CHR ''.'') num"
      "list_all is_space sp2" "map lower_char m = ''ms''" "py_float num = Inr v"
    for pre t c sp1 num sp2 m post v
  proof -
    have "ping_search out = Some num"
      using that(1-9) by (rule ping_search_time)
    then show ?thesis using that(10) by (simp add: eq)
  qed
  have B: "ping_latency w host timeout = Inr (True, Some (real (dec_nat ds)))"
    if "out = pre @ a @ ds @ m @ post" "re_search ping_time_re out = None"
      "\<forall>i<length pre. windows_avg_re (drop i out) = None"
      "map lower_char a = ''average = ''" "ds \<noteq> []" "list_all is_digit ds"
      "map lower_char m = ''ms''"
    for pre a ds m post
  proof -
    have "ping_search out = Some ds"
      using that by (rule ping_search_avg)
    then show ?thesis using py_float_digits [OF that(5,6)] by (simp add: eq)
  qed
  have C: "ping_search out = None \<Longrightarrow> ping_latency w host timeout = Inr (True, None)"
    by (simp add: eq)
  have D: "ping_search out = Some g \<Longrightarrow> py_float g = Inl e
      \<Longrightarrow> ping_latency w host timeout = Inr (True, None)" for g e
    by (simp add: eq)
  have E: "\<exists>lat. ping_latency w host timeout = Inr (True, lat)"
    by (auto simp: eq split: option.splits sum.splits)
  show ?thesis
  proof (intro conjI)
    show "\<forall>pre t c sp1 num sp2 m post v.
            out = pre @ t @ c # sp1 @ num @ sp2 @ m @ post
            \<and> (\<forall>i<length pre. ping_time_re (drop i out) = None)
            \<and> map lower_char t = ''time'' \<and> (c = CHR ''='' \<or> c = CHR ''<'')
            \<and> list_all is_space sp1
            \<and> num \<noteq> [] \<and> list_all (\<lambda>c. is_digit c \<or> c = CHR ''.'') num
            \<and> list_all is_space sp2 \<and> map lower_char m = ''ms''
            \<and> py_float num = Inr v
            \<longrightarrow> ping_latency w host timeout = Inr (True, Some v)"
      by (intro allI impI, elim conjE, rule A)
    show "\<forall>pre a ds m post.
            out = pre @ a @ ds @ m @ post
            \<and> re_search ping_time_re out = None
            \<and> (\<forall>i<length pre. windows_avg_re (drop i out) = None)
            \<and> map lower_char a = ''average = ''
            \<and> ds \<noteq> [] \<and> list_all is_digit ds \<and> map lower_char m = ''ms''
            \<longrightarrow> ping_latency w host timeout = Inr (True, Some (real (dec_nat ds)))"
      by (intro allI impI, elim conjE, rule B)
    show "ping_search out = None \<longrightarrow> ping_latency w host timeout = Inr (True, None)"
      using C by (rule impI)
    show "\<forall>g e. ping_search out = Some g \<and> py_float g = Inl e
            \<longrightarrow> ping_latency w host timeout = Inr (True, None)"
      by (intro allI impI, elim conjE, rule D)
    show "\<exists>lat. ping_latency w host timeout = Inr (True, lat)"
      by (rule E)
  qed
qed


theorem ping_latency_success_witness:
  "ping_latency (quiet_world\<lparr>subprocess_run := (\<lambda>cmd t.
       Inr \<lparr>returncode = 0, stdout = ''ttl=64 time=23.4 ms'', stderr = ''''\<rparr>)\<rparr>) ''192.168.1.1'' 2
     = Inr (True, Some 23.4)
   \<and> ping_latency (quiet_world\<lparr>platform_system := ''Windows'', subprocess_run := (\<lambda>cmd t.
       Inr \<lparr>returncode = 0, stdout = ''Lost = 0, Average = 7ms'', stderr = ''''\<rparr>)\<rparr>) ''192.168.1.1'' 2
     = Inr (True, Some 7)
   \<and> ping_latency (quiet_world\<lparr>subprocess_run := (\<lambda>cmd t.
       Inr \<lparr>returncode = 0, stdout = ''1 received'', stderr = ''''\<rparr>)\<rparr>) ''192.168.1.1'' 2
     = Inr (True, None)
   \<and> ping_latency (quiet_world\<lparr>subprocess_run := (\<lambda>cmd t.
       Inr \<lparr>returncode = 0, stdout = ''time=1.2.3 ms'', stderr = ''''\<rparr>)\<rparr>) ''192.168.1.1'' 2
     = Inr (True, None)"
proof -
  let ?p1 = "\<lparr>returncode = 0, stdout = ''ttl=64 time=23.4 ms'', stderr = ''''\<rparr>"
  let ?p2 = "\<lparr>returncode = 0, stdout = ''Lost = 0, Average = 7ms'', stderr = ''''\<rparr>"
  let ?p3 = "\<lparr>returncode = 0, stdout = ''1 received'', stderr = ''''\<rparr>"
  let ?p4 = "\<lparr>returncode = 0, stdout = ''time=1.2.3 ms'', stderr = ''''\<rparr>"
  let ?w1 = "quiet_world\<lparr>subprocess_run := (\<lambda>cmd t. Inr ?p1)\<rparr>"
  let ?w2 = "quiet_world\<lparr>platform_system := ''Windows'', subprocess_run := (\<lambda>cmd t. Inr ?p2)\<rparr>"
  let ?w3 = "quiet_world\<lparr>subprocess_run := (\<lambda>cmd t. Inr ?p3)\<rparr>"
  let ?w4 = "quiet_world\<lparr>subprocess_run := (\<lambda>cmd t. Inr ?p4)\<rparr>"
  have r1: "subprocess_run ?w1 (ping_cmd ?w1 ''192.168.1.1'' 2) (2 + 1) = Inr ?p1" by simp
  have r2: "subprocess_run ?w2 (ping_cmd ?w2 ''192.168.1.1'' 2) (2 + 1) = Inr ?p2" by simp
  have r3: "subprocess_run ?w3 (ping_cmd ?w3 ''192.168.1.1'' 2) (2 + 1) = Inr ?p3" by simp
  have r4: "subprocess_run ?w4 (ping_cmd ?w4 ''192.168.1.1'' 2) (2 + 1) = Inr ?p4" by simp
  have e1: "returncode ?p1 = 0" and e2: "returncode ?p2 = 0"
    and e3: "returncode ?p3 = 0" and e4: "returncode ?p4 = 0" by simp_all
  have o1: "''ttl=64 time=23.4 ms'' = stdout ?p1 @ stderr ?p1" by simp
  have o2: "''Lost = 0, Average = 7ms'' = stdout ?p2 @ stderr ?p2" by simp
  have o3: "''1 received'' = stdout ?p3 @ stderr ?p3" by simp
  have o4: "''time=1.2.3 ms'' = stdout ?p4 @ stderr ?p4" by simp
  have pre1: "\<forall>i<length ''ttl=64 ''. ping_time_re (drop i ''ttl=64 time=23.4 ms'') = None"
    unfolding all_less_list_all by code_simp
  have f1: "py_float ''23.4'' = Inr 23.4" by code_simp
  have a1: "ping_latency ?w1 ''192.168.1.1'' 2 = Inr (True, Some 23.4)"
  proof (rule ping_latency_success [OF r1 e1 o1, THEN conjunct1, rule_format,
        of "''ttl=64 ''" "''time''" "CHR ''=''" "''''" "''23.4''" "'' ''" "''ms''" "''''"])
    show "''ttl=64 time=23.4 ms'' = ''ttl=64 '' @ ''time'' @ CHR ''='' # '''' @ ''23.4'' @ '' '' @ ''ms'' @ '''' \<and>
      (\<forall>i<length ''ttl=64 ''. ping_time_re (drop i ''ttl=64 time=23.4 ms'') = None) \<and>
      map lower_char ''time'' = ''time'' \<and> (CHR ''='' = CHR ''='' \<or> CHR ''='' = CHR ''<'') \<and>
      list_all is_space '''' \<and> ''23.4'' \<noteq> [] \<and>
      list_all (\<lambda>c. is_digit c \<or> c = CHR ''.'') ''23.4'' \<and>
      list_all is_space '' '' \<and> map lower_char ''ms'' = ''ms'' \<and> py_float ''23.4'' = Inr 23.4"
      using pre1 f1 lower_time lower_ms
      by (simp add: is_space_def is_digit_def code_point_def)
  qed
  have nt2: "re_search ping_time_re ''Lost = 0, Average = 7ms'' = None" by code_simp
  have pre2: "\<forall>i<length ''Lost = 0, ''. windows_avg_re (drop i ''Lost = 0, Average = 7ms'') = None"
    unfolding all_less_list_all by code_simp
  have la: "map lower_char ''Average = '' = ''average = ''" by (rule lower_average)
  have d7: "real (dec_nat ''7'') = 7" by (simp add: dec_nat_def code_point_def)
  have a2: "ping_latency ?w2 ''192.168.1.1'' 2 = Inr (True, Some (real (dec_nat ''7'')))"
  proof (rule ping_latency_success [OF r2 e2 o2, THEN conjunct2, THEN conjunct1, rule_format,
        of "''Lost = 0, ''" "''Average = ''" "''7''" "''ms''" "''''"])
    show "''Lost = 0, Average = 7ms'' = ''Lost = 0, '' @ ''Average = '' @ ''7'' @ ''ms'' @ '''' \<and>
      re_search ping_time_re ''Lost = 0, Average = 7ms'' = None \<and>
      (\<forall>i<length ''Lost = 0, ''. windows_avg_re (drop i ''Lost = 0, Average = 7ms'') = None) \<and>
      map lower_char ''Average = '' = ''average = '' \<and> ''7'' \<noteq> [] \<and>
      list_all is_digit ''7'' \<and> map lower_char ''ms'' = ''ms''"
      using nt2 pre2 la lower_ms by (simp add: is_digit_def code_point_def)
  qed
  have n3: "ping_search ''1 received'' = None" by code_simp
  have a3: "ping_latency ?w3 ''192.168.1.1'' 2 = Inr (True, None)"
    using ping_latency_success [OF r3 e3 o3] n3 by blast
  have n4: "ping_search ''time=1.2.3 ms'' = Some ''1.2.3''" by code_simp
  have f4: "py_float ''1.2.3'' = Inl ValueError" by code_simp
  have a4: "ping_latency ?w4 ''192.168.1.1'' 2 = Inr (True, None)"
    using ping_latency_success [OF r4 e4 o4] n4 f4 by blast
  show ?thesis using a1 a2 a3 a4 d7 by simp
qed

section \<open>Properties of the speedtest and the SSID lookup\<close>

lemma lower_Windows: "lower ''Windows'' = ''windows''"
  by code_simp

lemma lower_Linux: "lower ''Linux'' = ''linux''"
  by code_simp

lemma lower_Java: "lower ''Java'' = ''java''"
  by code_simp

lemma get_current_ssid_total: "\<exists>s. get_current_ssid w = Inr s"
  by (auto simp: get_current_ssid_def Let_def split: sum.splits option.splits)

lemma get_current_ssid_quiet: "get_current_ssid quiet_world = Inr ''Unknown''"
  by (simp add: get_current_ssid_def ssid_try_def quiet_world_def lower_Linux)

lemma speedtest_try_quiet:
  "speedtest_try quiet_world = Inl (OtherException ''ConfigRetrievalError'')"
  by (simp add: speedtest_try_def quiet_world_def)

lemma api_speedtest_payload:
  assumes "get_current_ssid w = Inr s" and "run_speedtest w = Inr (dl, ul, ping)"
  shows "api_speedtest w =
     Inr \<lparr>ssid = s, download_mbps = dl, upload_mbps = ul, ping_ms = ping,
          health = fst (compute_health dl), health_color = snd (compute_health dl),
          time_stamp = now_strftime w\<rparr>"
  using assms by (simp add: api_speedtest_def split: prod.splits)

lemma api_speedtest_raises:
  assumes "run_speedtest w = Inl e"
  shows "api_speedtest w = Inl e"
proof -
  obtain s where "get_current_ssid w = Inr s"
    using get_current_ssid_total by blast
  with assms show ?thesis by (simp add: api_speedtest_def)
qed

text \<open>
  Where the library fails and the handler's \<open>print\<close> returns, the result is as the
  specification says: three \<open>None\<close>, the label \<open>"Unknown"\<close>, and a payload.
\<close>

lemma speedtest_failure_print_returns:
  assumes "speedtest_try w = Inl e" and "print_failed w e = Inr u"
  shows "run_speedtest w = Inr (None, None, None)
     \<and> (\<exists>p. api_speedtest w = Inr p \<and> download_mbps p = None \<and> upload_mbps p = None
            \<and> ping_ms p = None \<and> health p = ''Unknown'')"
proof -
  have run: "run_speedtest w = Inr (None, None, None)"
    using assms by (simp add: run_speedtest_def)
  obtain s where s: "get_current_ssid w = Inr s"
    using get_current_ssid_total by blast
  show ?thesis
    using run api_speedtest_payload [OF s run] by (simp add: compute_health_def)
qed

text \<open>
  Claim C6. The claim is that a failing speedtest library always gives three \<open>None\<close>, the
  label \<open>"Unknown"\<close> and a completed request. The code does not: the \<open>except\<close> handler
  prints before it returns, and the \<open>print\<close> is itself unguarded. In the world below the
  library fails at its first step and the standard output is a closed pipe; the
  exception of the \<open>print\<close> leaves \<open>run_speedtest\<close> and then \<open>api_speedtest\<close>, so the
  request ends in an error and not in a payload.
\<close>

theorem speedtest_failure_print_raises:
  "speedtest_try (quiet_world\<lparr>print_failed := (\<lambda>e. Inl (OtherException ''BrokenPipeError''))\<rparr>)
     = Inl (OtherException ''ConfigRetrievalError'')
   \<and> run_speedtest (quiet_world\<lparr>print_failed := (\<lambda>e. Inl (OtherException ''BrokenPipeError''))\<rparr>)
     = Inl (OtherException ''BrokenPipeError'')
   \<and> api_speedtest (quiet_world\<lparr>print_failed := (\<lambda>e. Inl (OtherException ''BrokenPipeError''))\<rparr>)
     = Inl (OtherException ''BrokenPipeError'')"
proof -
  let ?w = "quiet_world\<lparr>print_failed := (\<lambda>e. Inl (OtherException ''BrokenPipeError''))\<rparr>"
  have t: "speedtest_try ?w = Inl (OtherException ''ConfigRetrievalError'')"
    by (simp add: speedtest_try_def quiet_world_def)
  have r: "run_speedtest ?w = Inl (OtherException ''BrokenPipeError'')"
    by (simp add: run_speedtest_def t)
  show ?thesis
    using t r api_speedtest_raises [OF r] by simp
qed

text \<open>
  Claim C9. When the SSID lookup's subprocess raises on Windows, Linux or macOS, and when
  the platform is none of the three, \<open>get_current_ssid\<close> returns \<open>"Unknown"\<close>. It always
  returns a string, it never raises; and whenever \<open>run_speedtest\<close> returns,
  \<open>api_speedtest\<close> returns a payload carrying that string, whatever the lookup did: the
  lookup never fails the request.
\<close>

theorem ssid_lookup_failure:
  "(\<forall>e. lower (platform_system w) = ''windows''
         \<and> check_output w [''netsh'', ''wlan'', ''show'', ''interfaces''] = Inl e
        \<longrightarrow> get_current_ssid w = Inr ''Unknown'')
   \<and> (\<forall>e. lower (platform_system w) = ''linux'' \<and> check_output w [''iwgetid'', ''-r''] = Inl e
        \<longrightarrow> get_current_ssid w = Inr ''Unknown'')
   \<and> (\<forall>e. lower (platform_system w) = ''darwin'' \<and> check_output w [airport_path, ''-I''] = Inl e
        \<longrightarrow> get_current_ssid w = Inr ''Unknown'')
   \<and> (lower (platform_system w) \<noteq> ''windows'' \<and> lower (platform_system w) \<noteq> ''linux''
        \<and> lower (platform_system w) \<noteq> ''darwin''
        \<longrightarrow> get_current_ssid w = Inr ''Unknown'')
   \<and> (\<exists>s. get_current_ssid w = Inr s
        \<and> (\<forall>r. run_speedtest w = Inr r \<longrightarrow> (\<exists>p. api_speedtest w = Inr p \<and> ssid p = s)))"
proof (intro conjI allI impI)
  fix e assume "lower (platform_system w) = ''windows''
      \<and> check_output w [''netsh'', ''wlan'', ''show'', ''interfaces''] = Inl e"
  then show "get_current_ssid w = Inr ''Unknown''"
    by (simp add: get_current_ssid_def ssid_try_def)
next
  fix e assume "lower (platform_system w) = ''linux'' \<and> check_output w [''iwgetid'', ''-r''] = Inl e"
  then show "get_current_ssid w = Inr ''Unknown''"
    by (simp add: get_current_ssid_def ssid_try_def)
next
  fix e assume "lower (platform_system w) = ''darwin'' \<and> check_output w [airport_path, ''-I''] = Inl e"
  then show "get_current_ssid w = Inr ''Unknown''"
    by (simp add: get_current_ssid_def ssid_try_def)
next
  assume "lower (platform_system w) \<noteq> ''windows'' \<and> lower (platform_system w) \<noteq> ''linux''
      \<and> lower (platform_system w) \<noteq> ''darwin''"
  then show "get_current_ssid w = Inr ''Unknown''"
    by (simp add: get_current_ssid_def ssid_try_def)
next
  obtain s where s: "get_current_ssid w = Inr s"
    using get_current_ssid_total by blast
  have "\<exists>p. api_speedtest w = Inr p \<and> ssid p = s" if "run_speedtest w = Inr r" for r
  proof -
    obtain dl ul ping where "r = (dl, ul, ping)" by (cases r) auto
    with that have "run_speedtest w = Inr (dl, ul, ping)" by simp
    from api_speedtest_payload [OF s this] show ?thesis by simp
  qed
  with s show "\<exists>s. get_current_ssid w = Inr s
      \<and> (\<forall>r. run_speedtest w = Inr r \<longrightarrow> (\<exists>p. api_speedtest w = Inr p \<and> ssid p = s))"
    by blast
qed

theorem ssid_lookup_failure_witness:
  "get_current_ssid quiet_world = Inr ''Unknown''
   \<and> get_current_ssid (quiet_world\<lparr>platform_system := ''Windows'',
        check_output := (\<lambda>cmd. Inl (CalledProcessError 1))\<rparr>) = Inr ''Unknown''
   \<and> get_current_ssid (quiet_world\<lparr>platform_system := ''Java'',
        check_output := (\<lambda>cmd. Inr ''x'')\<rparr>) = Inr ''Unknown''
   \<and> run_speedtest quiet_world = Inr (None, None, None)
   \<and> (\<exists>p. api_speedtest quiet_world = Inr p \<and> ssid p = ''Unknown'')"
proof -
  let ?w1 = "quiet_world\<lparr>platform_system := ''Windows'',
        check_output := (\<lambda>cmd. Inl (CalledProcessError 1))\<rparr>"
  let ?w2 = "quiet_world\<lparr>platform_system := ''Java'', check_output := (\<lambda>cmd. Inr ''x'')\<rparr>"
  have l0: "lower (platform_system quiet_world) = ''linux''"
    by (simp add: quiet_world_def lower_Linux)
  have c0: "check_output quiet_world [''iwgetid'', ''-r''] = Inl FileNotFoundError"
    by (simp add: quiet_world_def)
  have l1: "lower (platform_system ?w1) = ''windows''"
    by (simp add: lower_Windows)
  have c1: "check_output ?w1 [''netsh'', ''wlan'', ''show'', ''interfaces''] = Inl (CalledProcessError 1)"
    by simp
  have l2: "lower (platform_system ?w2) = ''java''"
    by (simp add: lower_Java)
  have r0: "run_speedtest quiet_world = Inr (None, None, None)"
    by (simp add: run_speedtest_def speedtest_try_quiet) (simp add: quiet_world_def)
  have a0: "get_current_ssid quiet_world = Inr ''Unknown''"
    using ssid_lookup_failure [of quiet_world] l0 c0 by blast
  have a1: "get_current_ssid ?w1 = Inr ''Unknown''"
    using ssid_lookup_failure [of ?w1] l1 c1 by blast
  have a2: "get_current_ssid ?w2 = Inr ''Unknown''"
    using ssid_lookup_failure [of ?w2] l2 by simp
  have a3: "\<exists>p. api_speedtest quiet_world = Inr p \<and> ssid p = ''Unknown''"
    using ssid_lookup_failure [of quiet_world] a0 r0 by auto
  show ?thesis using a0 a1 a2 a3 r0 by blast
qed

end
